theory Spec2Isabelle
  imports Main
begin

section \<open>Decoded JSON values and Go type assertions\<close>

text \<open>
  \<^verbatim>\<open>encoding/json\<close> decodes a response body into \<^verbatim>\<open>interface{}\<close> values: \<^verbatim>\<open>nil\<close>,
  \<^verbatim>\<open>bool\<close>, \<^verbatim>\<open>float64\<close>, \<^verbatim>\<open>string\<close>, \<^verbatim>\<open>[]interface{}\<close> and
  \<^verbatim>\<open>map[string]interface{}\<close>. A decoded object is kept as an association list read
  through \<open>map_of\<close>. The resolver never inspects a number, so its payload is an integer.
\<close>

datatype gval =
    GNil
  | GBool bool
  | GNum int
  | GStr string
  | GSlice "gval list"
  | GMap "(string \<times> gval) list"

text \<open>\<^verbatim>\<open>m[k]\<close> on a \<^verbatim>\<open>map[string]interface{}\<close>: the value, or \<^verbatim>\<open>nil\<close> for an absent key.\<close>

definition index :: "(string \<times> gval) list \<Rightarrow> string \<Rightarrow> gval" where
  "index m k = (case map_of m k of None \<Rightarrow> GNil | Some v \<Rightarrow> v)"

text \<open>
  The type assertions \<^verbatim>\<open>v.(T)\<close>. In the two-valued form \<^verbatim>\<open>x, ok := v.(T)\<close> the result
  \<open>None\<close> is \<^verbatim>\<open>ok == false\<close>; in the one-valued form \<open>None\<close> is a run-time panic, and the
  caller below says which of the two it is.
\<close>

definition as_map :: "gval \<Rightarrow> (string \<times> gval) list option" where
  "as_map v = (case v of GMap m \<Rightarrow> Some m | _ \<Rightarrow> None)"

definition as_string :: "gval \<Rightarrow> string option" where
  "as_string v = (case v of GStr s \<Rightarrow> Some s | _ \<Rightarrow> None)"

definition as_slice :: "gval \<Rightarrow> gval list option" where
  "as_slice v = (case v of GSlice xs \<Rightarrow> Some xs | _ \<Rightarrow> None)"

text \<open>A \<^verbatim>\<open>map[string]string\<close> literal, and \<^verbatim>\<open>m[k]\<close> on it (the empty string when absent).\<close>

type_synonym strmap = "(string \<times> string) list"

definition str_index :: "strmap \<Rightarrow> string \<Rightarrow> string" where
  "str_index m k = (case map_of m k of None \<Rightarrow> [] | Some v \<Rightarrow> v)"

text \<open>\<^verbatim>\<open>strings.HasPrefix(s, prefix)\<close>.\<close>

definition HasPrefix :: "string \<Rightarrow> string \<Rightarrow> bool" where
  "HasPrefix s p = (length p \<le> length s \<and> take (length p) s = p)"

section \<open>The central API client\<close>

text \<open>
  The two calls the resolver makes on \<^verbatim>\<open>prismClient.API\<close>: \<^verbatim>\<open>MakeRequest(ctx, method, path)\<close>
  and \<^verbatim>\<open>MakeRequestWithParams(ctx, method, path, RequestParams{Payload: payload})\<close>.
\<close>

datatype request =
    MakeRequest string string
  | MakeRequestWithParams string string "(string \<times> gval) list"

datatype error =
    TransportError string
  | DecodeError string
  | Errorf string

text \<open>
  A response body as the JSON decoder meets it: bytes that are not JSON (with the decoder's
  message), or the first JSON value of the stream. The client is a function from the
  request to an error or a response; the 60 second deadline of the context shows up as one
  of its errors.
\<close>

datatype body = Malformed string | Json gval

type_synonym api = "request \<Rightarrow> error + body"

text \<open>
  \<^verbatim>\<open>json.NewDecoder(resp.Body).Decode(&result)\<close> with \<^verbatim>\<open>result\<close> a
  \<^verbatim>\<open>map[string]interface{}\<close>: an object fills the map, \<^verbatim>\<open>null\<close> leaves it nil (it reads
  as empty), every other value is an unmarshal type error.
\<close>

definition Decode :: "body \<Rightarrow> error + (string \<times> gval) list" where
  "Decode b =
     (case b of
        Malformed msg \<Rightarrow> Inl (DecodeError msg)
      | Json v \<Rightarrow>
          (case v of
             GMap m \<Rightarrow> Inr m
           | GNil \<Rightarrow> Inr []
           | _ \<Rightarrow> Inl (DecodeError ''json: cannot unmarshal into Go value of type map[string]interface {}'')))"

section \<open>The resolver: FetchClusters\<close>

datatype 'a outcome = Panics | Fails error | Returns 'a

datatype event = Request request | Log string

definition makeV4b1Request :: request where
  "makeV4b1Request = MakeRequest ''GET'' ''/api/clustermgmt/v4.0.b1/config/clusters''"

definition makeV4Request :: request where
  "makeV4Request = MakeRequest ''GET'' ''/api/clustermgmt/v4.0/config/clusters''"

definition makeV3Request :: request where
  "makeV3Request =
     MakeRequestWithParams ''POST'' ''/api/nutanix/v3/clusters/list''
       [(''kind'', GStr ''cluster''), (''length'', GNum 100), (''offset'', GNum 0)]"

text \<open>
  One pass of a \<^verbatim>\<open>for _, x := range xs\<close> loop whose body either panics, hits
  \<^verbatim>\<open>continue\<close>, or appends one record to \<^verbatim>\<open>clusters\<close>.
\<close>

datatype step = Panic | Continue | Append strmap

fun range_loop :: "(gval \<Rightarrow> step) \<Rightarrow> gval list \<Rightarrow> strmap list \<Rightarrow> strmap list outcome" where
  "range_loop f [] clusters = Returns clusters"
| "range_loop f (x # xs) clusters =
     (case f x of
        Panic \<Rightarrow> Panics
      | Continue \<Rightarrow> range_loop f xs clusters
      | Append c \<Rightarrow> range_loop f xs (clusters @ [c]))"

text \<open>The body of the loop of \<^verbatim>\<open>parseV4Clusters\<close> (lines 234 to 251).\<close>

definition parseV4_body :: "gval \<Rightarrow> step" where
  "parseV4_body cluster =
     (case as_map cluster of
        None \<Rightarrow> Panic
      | Some clusterMap \<Rightarrow>
     (case as_string (index clusterMap ''name'') of
        None \<Rightarrow> Continue
      | Some name \<Rightarrow>
     if name = ''Unnamed'' then Continue else
     (case as_map (index clusterMap ''network'') of
        None \<Rightarrow> Panic
      | Some net \<Rightarrow>
     (case as_map (index net ''externalAddress'') of
        None \<Rightarrow> Continue
      | Some network \<Rightarrow>
     if index network ''ipv4'' = GNil then Continue else
     (case as_map (index network ''ipv4'') of
        None \<Rightarrow> Panic
      | Some ipv4 \<Rightarrow>
     (case as_string (index ipv4 ''value'') of
        None \<Rightarrow> Continue
      | Some ip \<Rightarrow> Append [(''name'', name), (''ip'', ip)]))))))"

definition parseV4Clusters :: "(string \<times> gval) list \<Rightarrow> strmap list outcome" where
  "parseV4Clusters result =
     (case as_slice (index result ''data'') of
        None \<Rightarrow> Fails (Errorf ''unexpected response format for v4'')
      | Some data \<Rightarrow> range_loop parseV4_body data [])"

definition parseV4b1Clusters :: "(string \<times> gval) list \<Rightarrow> strmap list outcome" where
  "parseV4b1Clusters = parseV4Clusters"

text \<open>The body of the loop of \<^verbatim>\<open>parseV3Clusters\<close> (lines 268 to 293).\<close>

definition parseV3_body :: "gval \<Rightarrow> step" where
  "parseV3_body entity =
     (case as_map entity of
        None \<Rightarrow> Panic
      | Some cluster \<Rightarrow>
     (case (as_map (index cluster ''spec''), as_map (index cluster ''status'')) of
        (Some spec, Some status) \<Rightarrow>
          (case as_string (index spec ''name'') of
             None \<Rightarrow> Continue
           | Some name \<Rightarrow>
          if name = ''Unnamed'' then Continue else
          (case as_map (index status ''resources'') of
             None \<Rightarrow> Panic
           | Some resources \<Rightarrow>
          (case as_map (index resources ''network'') of
             None \<Rightarrow> Continue
           | Some network \<Rightarrow>
          (case as_string (index network ''external_ip'') of
             None \<Rightarrow> Continue
           | Some ip \<Rightarrow> Append [(''name'', name), (''ip'', ip)]))))
      | _ \<Rightarrow> Continue))"

definition parseV3Clusters :: "(string \<times> gval) list \<Rightarrow> strmap list outcome" where
  "parseV3Clusters result =
     (case as_slice (index result ''entities'') of
        None \<Rightarrow> Fails (Errorf ''unexpected response format for v3'')
      | Some entities \<Rightarrow> range_loop parseV3_body entities [])"

text \<open>
  The final loop of \<^verbatim>\<open>FetchClusters\<close> (lines 331 to 343): it fills \<^verbatim>\<open>clusterData\<close> and
  writes one log line for every record.
\<close>

fun build_clusterData ::
  "string \<Rightarrow> strmap list \<Rightarrow> string list \<times> (string \<rightharpoonup> string) \<Rightarrow> string list \<times> (string \<rightharpoonup> string)"
where
  "build_clusterData ClusterPrefix [] (logs, clusterData) = (logs, clusterData)"
| "build_clusterData ClusterPrefix (cluster # clusters) (logs, clusterData) =
     (let name = str_index cluster ''name'';
          ip = str_index cluster ''ip''
      in if ClusterPrefix \<noteq> [] \<and> \<not> HasPrefix name ClusterPrefix
         then build_clusterData ClusterPrefix clusters
                (logs @ [''Skipping cluster '' @ name], clusterData)
         else let url = ''https://'' @ ip @ '':9440''
              in build_clusterData ClusterPrefix clusters
                   (logs @ [''Found cluster '' @ name @ '' at '' @ url], clusterData(name \<mapsto> url)))"

text \<open>The dispatch on the version string (lines 303 to 312).\<close>

definition dispatch_request :: "string \<Rightarrow> request" where
  "dispatch_request version =
     (if version = ''v3'' then makeV3Request
      else if version = ''v4b1'' then makeV4b1Request
      else makeV4Request)"

definition dispatch_parse :: "string \<Rightarrow> (string \<times> gval) list \<Rightarrow> strmap list outcome" where
  "dispatch_parse version =
     (if version = ''v3'' then parseV3Clusters
      else if version = ''v4b1'' then parseV4b1Clusters
      else parseV4Clusters)"

text \<open>
  \<^verbatim>\<open>FetchClusters(prismClient, version)\<close>, with the client and the global
  \<^verbatim>\<open>ClusterPrefix\<close> as arguments. It returns what it did (the requests it made and the lines
  it logged, in order) and how it ended.
\<close>

definition FetchClusters :: "api \<Rightarrow> string \<Rightarrow> string \<Rightarrow> event list \<times> (string \<rightharpoonup> string) outcome" where
  "FetchClusters prismClient ClusterPrefix version =
     (let req = dispatch_request version;
          parseClusters = dispatch_parse version
      in case prismClient req of
           Inl err \<Rightarrow> ([Request req], Fails err)
         | Inr resp \<Rightarrow>
             (case Decode resp of
                Inl err \<Rightarrow> ([Request req], Fails err)
              | Inr result \<Rightarrow>
                  (case parseClusters result of
                     Panics \<Rightarrow> ([Request req], Panics)
                   | Fails err \<Rightarrow> ([Request req], Fails err)
                   | Returns clusters \<Rightarrow>
                       (let (logs, clusterData) = build_clusterData ClusterPrefix clusters ([], Map.empty)
                        in (Request req # map Log logs, Returns clusterData)))))"

section \<open>The entries of a response, as the specification names them\<close>

text \<open>
  The specification locates an entry's fields by path: \<^verbatim>\<open>entities[].spec.name\<close> and
  \<^verbatim>\<open>entities[].status.resources.network.external_ip\<close> under v3, \<^verbatim>\<open>data[].name\<close> and
  \<^verbatim>\<open>data[].network.externalAddress.ipv4.value\<close> under the two v4 schemas. These
  definitions follow those words; the theorems compare them with what the parsers do.
\<close>

fun get_path :: "gval \<Rightarrow> string list \<Rightarrow> gval" where
  "get_path v [] = v"
| "get_path (GMap m) (k # ks) = get_path (index m k) ks"
| "get_path v (k # ks) = GNil"

definition list_field :: "string \<Rightarrow> string" where
  "list_field version = (if version = ''v3'' then ''entities'' else ''data'')"

definition name_path :: "string \<Rightarrow> string list" where
  "name_path version = (if version = ''v3'' then [''spec'', ''name''] else [''name''])"

definition ip_path :: "string \<Rightarrow> string list" where
  "ip_path version =
     (if version = ''v3'' then [''status'', ''resources'', ''network'', ''external_ip'']
      else [''network'', ''externalAddress'', ''ipv4'', ''value''])"

text \<open>An entry is well formed when both paths lead to a string; then it has a name and an ip.\<close>

definition spec_entry :: "string \<Rightarrow> gval \<Rightarrow> (string \<times> string) option" where
  "spec_entry version e =
     (case as_string (get_path e (name_path version)) of
        None \<Rightarrow> None
      | Some n \<Rightarrow>
          (case as_string (get_path e (ip_path version)) of
             None \<Rightarrow> None
           | Some ip \<Rightarrow> Some (n, ip)))"

definition wellformed :: "string \<Rightarrow> gval list \<Rightarrow> bool" where
  "wellformed version es = list_all (\<lambda>e. spec_entry version e \<noteq> None) es"

text \<open>Endpoint synthesis and the filters of the specification (section 4.1).\<close>

definition endpoint :: "string \<Rightarrow> string" where
  "endpoint ip = ''https://'' @ ip @ '':9440''"

definition survives :: "string \<Rightarrow> string \<times> string \<Rightarrow> bool" where
  "survives ClusterPrefix e = (fst e \<noteq> ''Unnamed'' \<and> (ClusterPrefix = [] \<or> HasPrefix (fst e) ClusterPrefix))"

definition survivors :: "string \<Rightarrow> string \<Rightarrow> gval list \<Rightarrow> (string \<times> string) list" where
  "survivors ClusterPrefix version es =
     filter (survives ClusterPrefix) (List.map_filter (spec_entry version) es)"

text \<open>
  The mapping of the surviving entries: each name to the endpoint of its entry, the entry
  latest in the list where a name occurs more than once.
\<close>

definition spec_mapping :: "(string \<times> string) list \<Rightarrow> (string \<rightharpoonup> string)" where
  "spec_mapping entries = map_of (rev (map (\<lambda>e. (fst e, endpoint (snd e))) entries))"

text \<open>A client whose every request is answered with the same body.\<close>

definition answering :: "body \<Rightarrow> api" where
  "answering b req = Inr b"

definition requests_of :: "event list \<Rightarrow> request list" where
  "requests_of tr = List.map_filter (\<lambda>ev. case ev of Request r \<Rightarrow> Some r | Log l \<Rightarrow> None) tr"

definition logs_of :: "event list \<Rightarrow> string list" where
  "logs_of tr = List.map_filter (\<lambda>ev. case ev of Request r \<Rightarrow> None | Log l \<Rightarrow> Some l) tr"

section \<open>Building a generation: SetupClusters\<close>

text \<open>
  A cluster handle is made by \<^verbatim>\<open>nutanix.NewCluster\<close>, which lives outside this file; it
  is a parameter here, returning \<open>None\<close> for the \<^verbatim>\<open>nil\<close> pointer. Of the handle, the
  builder touches the metrics registry and the collector list only; the rest stays opaque.
  The registry is the list of the collectors registered so far.
\<close>

datatype collector =
    StorageContainerCollector string
  | ClusterCollector string
  | HostCollector string
  | VMCollector string

record 'c Cluster =
  handle :: 'c
  Registry :: "collector list"
  Collectors :: "collector list"

text \<open>
  What the builder takes from its surroundings: the constructor of handles, and the order
  in which \<^verbatim>\<open>range\<close> walks the keys of a map, which the Go run time picks.
\<close>

record ('v, 'c) runtime =
  NewCluster :: "string \<Rightarrow> string \<Rightarrow> 'v \<Rightarrow> bool \<Rightarrow> bool \<Rightarrow> nat \<Rightarrow> 'c Cluster option"
  range_keys :: "(string \<rightharpoonup> string) \<Rightarrow> string list"

definition range_ok :: "('v, 'c) runtime \<Rightarrow> (string \<rightharpoonup> string) \<Rightarrow> bool" where
  "range_ok rt m = (distinct (range_keys rt m) \<and> set (range_keys rt m) = dom m)"

definition MustRegister :: "collector list \<Rightarrow> collector \<Rightarrow> collector list" where
  "MustRegister registry c = registry @ [c]"

definition register_collectors :: "'c Cluster \<Rightarrow> 'c Cluster" where
  "register_collectors cluster =
     (let collectors =
            [StorageContainerCollector ''configs/storage_container.yaml'',
             ClusterCollector ''configs/cluster.yaml'',
             HostCollector ''configs/host.yaml'',
             VMCollector ''configs/vm.yaml'']
      in cluster\<lparr>Registry := fold (\<lambda>c registry. MustRegister registry c) collectors (Registry cluster),
                 Collectors := collectors\<rparr>)"

text \<open>The loop of \<^verbatim>\<open>SetupClusters\<close> (lines 165 to 188), over the keys in the order of the walk.\<close>

fun setup_loop ::
  "('v, 'c) runtime \<Rightarrow> 'v \<Rightarrow> (string \<rightharpoonup> string) \<Rightarrow> string list \<Rightarrow>
     string list \<times> (string \<rightharpoonup> 'c Cluster) \<Rightarrow> string list \<times> (string \<rightharpoonup> 'c Cluster)"
where
  "setup_loop rt vaultClient clusterData [] (logs, clustersMap) = (logs, clustersMap)"
| "setup_loop rt vaultClient clusterData (name # names) (logs, clustersMap) =
     (case clusterData name of
        None \<Rightarrow> setup_loop rt vaultClient clusterData names (logs, clustersMap)
      | Some url \<Rightarrow>
          (case NewCluster rt name url vaultClient False True 10 of
             None \<Rightarrow>
               setup_loop rt vaultClient clusterData names
                 (logs @ [''Failed to initialize cluster '' @ name], clustersMap)
           | Some cluster \<Rightarrow>
               setup_loop rt vaultClient clusterData names
                 (logs @ [''Registering collectors for cluster '' @ name],
                  clustersMap(name \<mapsto> register_collectors cluster))))"

definition SetupClusters ::
  "('v, 'c) runtime \<Rightarrow> string \<Rightarrow> api \<Rightarrow> 'v \<Rightarrow> string \<Rightarrow> event list \<times> (string \<rightharpoonup> 'c Cluster) outcome"
where
  "SetupClusters rt ClusterPrefix prismClient vaultClient PCApiVersion =
     (case FetchClusters prismClient ClusterPrefix PCApiVersion of
        (tr, Panics) \<Rightarrow> (tr, Panics)
      | (tr, Fails err) \<Rightarrow> (tr, Fails err)
      | (tr, Returns clusterData) \<Rightarrow>
          (let (logs, clustersMap) =
                 setup_loop rt vaultClient clusterData (range_keys rt clusterData) ([], Map.empty)
           in (tr @ map Log logs, Returns clustersMap)))"

section \<open>Start-up and the directory refresh loop: Init\<close>






text \<open>
  The world at one moment, as the process meets it: its environment variables, the
  credential provider, the behaviour of the central client, and the run time.
\<close>

record ('v, 'c) world =
  getenv :: "string \<Rightarrow> string"
  NewVaultClient :: "error + 'v"
  PrismAPI :: api
  go_runtime :: "('v, 'c) runtime"

text \<open>
  The shared state is the global \<^verbatim>\<open>ClustersMap\<close>; \<open>trace\<close> collects the requests and
  the log. A process is alive, has left through \<^verbatim>\<open>log.Fatalf\<close>, or has died of a panic.
\<close>

record 'c state =
  ClustersMap :: "string \<rightharpoonup> 'c Cluster"
  trace :: "event list"

datatype 'c proc = Alive "'c state" | Exited "event list" | Crashed "event list"

definition error_text :: "error \<Rightarrow> string" where
  "error_text err = (case err of TransportError m \<Rightarrow> m | DecodeError m \<Rightarrow> m | Errorf m \<Rightarrow> m)"

text \<open>
  One tick of the directory refresh loop (lines 121 to 130). The version, the prefix and the
  credential handle are the ones \<^verbatim>\<open>Init\<close> fixed; the credential refresh loop, which
  may replace the handle between ticks, is not part of this model.
\<close>

definition refresh_tick ::
  "string \<Rightarrow> 'v \<Rightarrow> string \<Rightarrow> ('v, 'c) world \<Rightarrow> 'c state \<Rightarrow> 'c proc"
where
  "refresh_tick ClusterPrefix vaultClient PCApiVersion w st =
     (let tr0 = trace st @ [Log ''Refreshing cluster list...'']
      in case SetupClusters (go_runtime w) ClusterPrefix (PrismAPI w) vaultClient PCApiVersion of
           (tr, Panics) \<Rightarrow> Crashed (tr0 @ tr)
         | (tr, Fails err) \<Rightarrow>
             Alive (st\<lparr>trace := tr0 @ tr @ [Log (''Cluster refresh failed: '' @ error_text err)]\<rparr>)
         | (tr, Returns newMap) \<Rightarrow>
             Alive (st\<lparr>ClustersMap := newMap, trace := tr0 @ tr @ [Log ''Cluster list refreshed'']\<rparr>))"

fun refresh_loop ::
  "string \<Rightarrow> 'v \<Rightarrow> string \<Rightarrow> ('v, 'c) world list \<Rightarrow> 'c state \<Rightarrow> 'c proc"
where
  "refresh_loop ClusterPrefix vaultClient PCApiVersion [] st = Alive st"
| "refresh_loop ClusterPrefix vaultClient PCApiVersion (w # ws) st =
     (case refresh_tick ClusterPrefix vaultClient PCApiVersion w st of
        Alive st' \<Rightarrow> refresh_loop ClusterPrefix vaultClient PCApiVersion ws st'
      | Exited tr \<Rightarrow> Exited tr
      | Crashed tr \<Rightarrow> Crashed tr)"


text \<open>The lookup of the metrics route (lines 140 to 147): \<open>None\<close> is the 404 answer.\<close>

definition TrimPrefix :: "string \<Rightarrow> string \<Rightarrow> string" where
  "TrimPrefix s p = (if HasPrefix s p then drop (length p) s else s)"

definition metrics_lookup :: "'c state \<Rightarrow> string \<Rightarrow> 'c Cluster option" where
  "metrics_lookup st path = ClustersMap st (TrimPrefix path ''/metrics/'')"


section \<open>The upstream list endpoint under v3\<close>

text \<open>
  The central endpoint is not part of the program. For the pagination property it is taken
  to do what a paged list query asks: of the fleet it holds, it returns \<^verbatim>\<open>length\<close> entries
  starting at \<^verbatim>\<open>offset\<close>.
\<close>

definition page_of :: "nat \<Rightarrow> nat \<Rightarrow> gval list \<Rightarrow> gval list" where
  "page_of off len fleet = take len (drop off fleet)"

definition upstream_v3 :: "gval list \<Rightarrow> api" where
  "upstream_v3 fleet req =
     (case req of
        MakeRequest method path \<Rightarrow> Inl (TransportError ''unsupported request'')
      | MakeRequestWithParams method path payload \<Rightarrow>
          (case (index payload ''length'', index payload ''offset'') of
             (GNum len, GNum off) \<Rightarrow>
               Inr (Json (GMap [(''entities'', GSlice (page_of (nat off) (nat len) fleet))]))
           | _ \<Rightarrow> Inl (TransportError ''bad list query'')))"

section \<open>Notions used to state the properties\<close>

text \<open>
  What a loop of a parser appends, the record it builds from a name and an ip, the test and
  the log line of the final loop of \<^verbatim>\<open>FetchClusters\<close>, and the parser body a version
  selects. They restate pieces of the definitions above so that lemmas can name them.
\<close>

definition appended :: "(gval \<Rightarrow> step) \<Rightarrow> gval list \<Rightarrow> strmap list" where
  "appended f xs = List.map_filter (\<lambda>x. case f x of Append c \<Rightarrow> Some c | _ \<Rightarrow> None) xs"

definition passes :: "string \<Rightarrow> strmap \<Rightarrow> bool" where
  "passes ClusterPrefix cluster =
     (ClusterPrefix = [] \<or> HasPrefix (str_index cluster ''name'') ClusterPrefix)"

definition log_line :: "string \<Rightarrow> strmap \<Rightarrow> string" where
  "log_line ClusterPrefix cluster =
     (if passes ClusterPrefix cluster
      then ''Found cluster '' @ str_index cluster ''name'' @ '' at '' @ endpoint (str_index cluster ''ip'')
      else ''Skipping cluster '' @ str_index cluster ''name'')"

definition binding :: "strmap \<Rightarrow> string \<times> string" where
  "binding cluster = (str_index cluster ''name'', endpoint (str_index cluster ''ip''))"

definition record_of :: "string \<times> string \<Rightarrow> strmap" where
  "record_of e = [(''name'', fst e), (''ip'', snd e)]"

definition body_of :: "string \<Rightarrow> gval \<Rightarrow> step" where
  "body_of version = (if version = ''v3'' then parseV3_body else parseV4_body)"

definition result_at :: "(string \<rightharpoonup> 'v) outcome \<Rightarrow> string \<Rightarrow> 'v option" where
  "result_at out name = (case out of Returns m \<Rightarrow> m name | _ \<Rightarrow> None)"

definition is_error :: "'a outcome \<Rightarrow> bool" where
  "is_error out = (case out of Fails err \<Rightarrow> True | _ \<Rightarrow> False)"

definition format_error :: "string \<Rightarrow> error" where
  "format_error version =
     Errorf (''unexpected response format for '' @ (if version = ''v3'' then ''v3'' else ''v4''))"

definition failing :: "error \<Rightarrow> api" where
  "failing err req = Inl err"

definition v4_entry :: "string \<Rightarrow> string \<Rightarrow> gval" where
  "v4_entry name ip =
     GMap [(''extId'', GStr ''0005''),
           (''name'', GStr name),
           (''network'', GMap [(''externalAddress'',
              GMap [(''ipv4'', GMap [(''value'', GStr ip), (''prefixLength'', GNum 32)])])])]"

definition v3_entity :: "string \<Rightarrow> string \<Rightarrow> gval" where
  "v3_entity name ip =
     GMap [(''metadata'', GMap [(''kind'', GStr ''cluster'')]),
           (''spec'', GMap [(''name'', GStr name)]),
           (''status'', GMap [(''state'', GStr ''COMPLETE''),
              (''resources'', GMap [(''network'', GMap [(''external_ip'', GStr ip)])])])]"


definition large_fleet :: "gval list" where
  "large_fleet =
     replicate 100 (v3_entity ''pe-a'' ''10.0.0.1'') @ [v3_entity ''pe-late'' ''10.0.0.9'']"

definition flaky_runtime :: "(unit, string \<times> string) runtime" where
  "flaky_runtime =
     \<lparr>NewCluster = (\<lambda>name url vaultClient skip_verify refresh timeout.
        if name = ''pe-a'' then None
        else Some \<lparr>handle = (name, url), Registry = [], Collectors = []\<rparr>),
      range_keys = (\<lambda>clusterData. [''pe-b'', ''pe-a''])\<rparr>"

definition setup_line ::
  "('v, 'c) runtime \<Rightarrow> 'v \<Rightarrow> (string \<rightharpoonup> string) \<Rightarrow> string \<Rightarrow> string option"
where
  "setup_line rt vaultClient clusterData name =
     (case clusterData name of
        None \<Rightarrow> None
      | Some url \<Rightarrow>
          (case NewCluster rt name url vaultClient False True 10 of
             None \<Rightarrow> Some (''Failed to initialize cluster '' @ name)
           | Some cluster \<Rightarrow> Some (''Registering collectors for cluster '' @ name)))"

definition two_clusters :: body where
  "two_clusters =
     Json (GMap [(''data'', GSlice [v4_entry ''pe-a'' ''10.0.0.1'', v4_entry ''pe-b'' ''10.0.0.2''])])"

definition sample_cluster :: "(string \<times> string) Cluster" where
  "sample_cluster =
     register_collectors \<lparr>handle = (''pe-a'', ''https://10.0.0.1:9440''), Registry = [], Collectors = []\<rparr>"

definition serving :: "(string \<times> string) state" where
  "serving = \<lparr>ClustersMap = [''pe-a'' \<mapsto> sample_cluster], trace = []\<rparr>"

definition world_down :: "(unit, string \<times> string) world" where
  "world_down =
     \<lparr>getenv = (\<lambda>name. []), NewVaultClient = Inr (),
      PrismAPI = failing (TransportError ''connection refused''),
      go_runtime = flaky_runtime\<rparr>"

definition world_up :: "(unit, string \<times> string) world" where
  "world_up =
     \<lparr>getenv = (\<lambda>name. []), NewVaultClient = Inr (),
      PrismAPI = answering two_clusters,
      go_runtime = flaky_runtime\<rparr>"





section \<open>Lemmas about the resolver\<close>

lemma index_Nil: "index [] k = GNil"
  by (simp add: index_def)

lemma appended_Nil: "appended f [] = []"
  by (simp add: appended_def List.map_filter_simps)

lemma appended_Cons:
  "appended f (x # xs) = (case f x of Append c \<Rightarrow> c # appended f xs | _ \<Rightarrow> appended f xs)"
  by (simp add: appended_def List.map_filter_simps split: step.splits)

lemma range_loop_eq:
  "range_loop f xs acc =
     (if list_all (\<lambda>x. f x \<noteq> Panic) xs then Returns (acc @ appended f xs) else Panics)"
proof (induction xs arbitrary: acc)
  case Nil
  show ?case by (simp add: appended_Nil)
next
  case (Cons x xs)
  show ?case
    by (cases "f x") (simp_all add: Cons.IH appended_Cons)
qed

lemma as_string_Some: "as_string v = Some s \<longleftrightarrow> v = GStr s"
  by (cases v) (simp_all add: as_string_def)

lemma as_map_GMap: "as_map (GMap m) = Some m"
  by (simp add: as_map_def)

lemma get_path_Cons_GStr:
  assumes "get_path v (k # ks) = GStr s"
  obtains m where "v = GMap m" and "get_path (index m k) ks = GStr s"
  using assms by (cases v) simp_all

lemma parseV4_body_wellformed:
  assumes "version \<noteq> ''v3''" and "spec_entry version e = Some (n, ip)"
  shows "parseV4_body e = (if n = ''Unnamed'' then Continue else Append [(''name'', n), (''ip'', ip)])"
proof -
  from assms have n: "get_path e [''name''] = GStr n"
    and ip: "get_path e [''network'', ''externalAddress'', ''ipv4'', ''value''] = GStr ip"
    by (auto simp: spec_entry_def name_path_def ip_path_def as_string_Some split: option.splits)
  from n obtain m where e: "e = GMap m" and mn: "index m ''name'' = GStr n"
    by (elim get_path_Cons_GStr) simp
  from ip e obtain a where a: "index m ''network'' = GMap a"
    and ip1: "get_path (index a ''externalAddress'') [''ipv4'', ''value''] = GStr ip"
    by (elim get_path_Cons_GStr) auto
  from ip1 obtain b where b: "index a ''externalAddress'' = GMap b"
    and ip2: "get_path (index b ''ipv4'') [''value''] = GStr ip"
    by (elim get_path_Cons_GStr) auto
  from ip2 obtain c where c: "index b ''ipv4'' = GMap c"
    and ip3: "index c ''value'' = GStr ip"
    by (elim get_path_Cons_GStr) auto
  show ?thesis
    by (simp add: parseV4_body_def e mn a b c ip3 as_map_def as_string_def)
qed

lemma parseV3_body_wellformed:
  assumes "spec_entry ''v3'' e = Some (n, ip)"
  shows "parseV3_body e = (if n = ''Unnamed'' then Continue else Append [(''name'', n), (''ip'', ip)])"
proof -
  from assms have n: "get_path e [''spec'', ''name''] = GStr n"
    and ip: "get_path e [''status'', ''resources'', ''network'', ''external_ip''] = GStr ip"
    by (auto simp: spec_entry_def name_path_def ip_path_def as_string_Some split: option.splits)
  from n obtain m where e: "e = GMap m"
    and n1: "get_path (index m ''spec'') [''name''] = GStr n"
    by (elim get_path_Cons_GStr) simp
  from n1 obtain sp where sp: "index m ''spec'' = GMap sp" and spn: "index sp ''name'' = GStr n"
    by (elim get_path_Cons_GStr) auto
  from ip e obtain st where st: "index m ''status'' = GMap st"
    and ip1: "get_path (index st ''resources'') [''network'', ''external_ip''] = GStr ip"
    by (elim get_path_Cons_GStr) auto
  from ip1 obtain r where r: "index st ''resources'' = GMap r"
    and ip2: "get_path (index r ''network'') [''external_ip''] = GStr ip"
    by (elim get_path_Cons_GStr) auto
  from ip2 obtain nw where nw: "index r ''network'' = GMap nw"
    and ip3: "index nw ''external_ip'' = GStr ip"
    by (elim get_path_Cons_GStr) auto
  show ?thesis
    by (simp add: parseV3_body_def e sp spn st r nw ip3 as_map_def as_string_def)
qed

lemma body_of_wellformed:
  assumes "spec_entry version e = Some (n, ip)"
  shows "body_of version e = (if n = ''Unnamed'' then Continue else Append (record_of (n, ip)))"
proof (cases "version = ''v3''")
  case True
  with assms show ?thesis
    by (simp add: body_of_def record_of_def parseV3_body_wellformed)
next
  case False
  with assms show ?thesis
    by (simp add: body_of_def record_of_def parseV4_body_wellformed [OF False])
qed

lemma appended_wellformed:
  assumes "wellformed version es"
  shows "list_all (\<lambda>e. body_of version e \<noteq> Panic) es \<and>
         appended (body_of version) es =
         map record_of (filter (\<lambda>e. fst e \<noteq> ''Unnamed'') (List.map_filter (spec_entry version) es))"
  using assms
proof (induction es)
  case Nil
  show ?case by (simp add: appended_Nil List.map_filter_simps)
next
  case (Cons e es)
  from Cons.prems obtain n ip where e: "spec_entry version e = Some (n, ip)"
    and es: "wellformed version es"
    by (auto simp: wellformed_def)
  show ?case using Cons.IH [OF es]
    by (simp add: appended_Cons body_of_wellformed [OF e] e List.map_filter_simps)
qed

lemma build_clusterData_Cons:
  "build_clusterData p (c # cs) (logs, m) =
     build_clusterData p cs
       (logs @ [log_line p c],
        if passes p c then m(fst (binding c) \<mapsto> snd (binding c)) else m)"
  by (cases "p = []"; cases "HasPrefix (str_index c ''name'') p")
     (simp_all add: Let_def passes_def log_line_def binding_def endpoint_def)

lemma build_clusterData_eq:
  "build_clusterData p cs (logs, m) =
     (logs @ map (log_line p) cs, m ++ map_of (rev (map binding (filter (passes p) cs))))"
proof (induction cs arbitrary: logs m)
  case Nil
  show ?case by simp
next
  case (Cons c cs)
  show ?case
    unfolding build_clusterData_Cons Cons.IH
    by simp
qed

lemma FetchClusters_eq:
  assumes "prismClient (dispatch_request version) = Inr resp"
    and "Decode resp = Inr result"
    and "as_slice (index result (list_field version)) = Some es"
  shows "FetchClusters prismClient ClusterPrefix version =
     (if list_all (\<lambda>e. body_of version e \<noteq> Panic) es
      then (Request (dispatch_request version) #
              map Log (map (log_line ClusterPrefix) (appended (body_of version) es)),
            Returns (map_of (rev (map binding
              (filter (passes ClusterPrefix) (appended (body_of version) es))))))
      else ([Request (dispatch_request version)], Panics))"
proof -
  have "dispatch_parse version result = range_loop (body_of version) es []"
    using assms(3)
    by (cases "version = ''v3''") (simp_all add: dispatch_parse_def body_of_def list_field_def parseV3Clusters_def
        parseV4Clusters_def parseV4b1Clusters_def)
  then show ?thesis
    using assms(1,2)
    by (simp add: FetchClusters_def Let_def range_loop_eq build_clusterData_eq)
qed

lemma as_string_get_path_Cons:
  "as_string (get_path v (k # ks)) =
     (case as_map v of None \<Rightarrow> None | Some m \<Rightarrow> as_string (get_path (index m k) ks))"
  by (cases v) (simp_all add: as_map_def as_string_def)

lemma as_map_GNil: "as_map GNil = None"
  by (simp add: as_map_def)

lemma spec_entry_v4:
  assumes "version \<noteq> ''v3''"
  shows "spec_entry version e =
     (case as_map e of None \<Rightarrow> None | Some clusterMap \<Rightarrow>
     (case as_string (index clusterMap ''name'') of None \<Rightarrow> None | Some name \<Rightarrow>
     (case as_map (index clusterMap ''network'') of None \<Rightarrow> None | Some net \<Rightarrow>
     (case as_map (index net ''externalAddress'') of None \<Rightarrow> None | Some network \<Rightarrow>
     (case as_map (index network ''ipv4'') of None \<Rightarrow> None | Some ipv4 \<Rightarrow>
     (case as_string (index ipv4 ''value'') of None \<Rightarrow> None | Some ip \<Rightarrow> Some (name, ip)))))))"
  using assms
  by (simp add: spec_entry_def name_path_def ip_path_def as_string_get_path_Cons
      split: option.splits)

lemma parseV4_body_spec:
  assumes "version \<noteq> ''v3''" and "parseV4_body e \<noteq> Panic"
  shows "parseV4_body e =
     (case spec_entry version e of
        None \<Rightarrow> Continue
      | Some x \<Rightarrow> if fst x = ''Unnamed'' then Continue else Append (record_of x))"
  using assms(2) unfolding spec_entry_v4 [OF assms(1)] parseV4_body_def
  by (auto simp: record_of_def as_map_GNil split: option.splits if_splits)

lemma spec_entry_v3:
  "spec_entry ''v3'' e =
     (case as_map e of None \<Rightarrow> None | Some cluster \<Rightarrow>
     (case as_map (index cluster ''spec'') of None \<Rightarrow> None | Some spec \<Rightarrow>
     (case as_string (index spec ''name'') of None \<Rightarrow> None | Some name \<Rightarrow>
     (case as_map (index cluster ''status'') of None \<Rightarrow> None | Some status \<Rightarrow>
     (case as_map (index status ''resources'') of None \<Rightarrow> None | Some resources \<Rightarrow>
     (case as_map (index resources ''network'') of None \<Rightarrow> None | Some network \<Rightarrow>
     (case as_string (index network ''external_ip'') of None \<Rightarrow> None | Some ip \<Rightarrow>
        Some (name, ip))))))))"
  by (simp add: spec_entry_def name_path_def ip_path_def as_string_get_path_Cons
      split: option.splits)

lemma parseV3_body_spec:
  assumes "parseV3_body e \<noteq> Panic"
  shows "parseV3_body e =
     (case spec_entry ''v3'' e of
        None \<Rightarrow> Continue
      | Some x \<Rightarrow> if fst x = ''Unnamed'' then Continue else Append (record_of x))"
  using assms unfolding spec_entry_v3 parseV3_body_def
  by (auto simp: record_of_def split: option.splits if_splits)

lemma body_of_spec:
  assumes "body_of version e \<noteq> Panic"
  shows "body_of version e =
     (case spec_entry version e of
        None \<Rightarrow> Continue
      | Some x \<Rightarrow> if fst x = ''Unnamed'' then Continue else Append (record_of x))"
proof (cases "version = ''v3''")
  case True
  with assms have "parseV3_body e \<noteq> Panic"
    by (simp add: body_of_def)
  from parseV3_body_spec [OF this] True show ?thesis
    by (simp add: body_of_def)
next
  case False
  with assms have "parseV4_body e \<noteq> Panic"
    by (simp add: body_of_def)
  from parseV4_body_spec [OF False this] False show ?thesis
    by (simp add: body_of_def)
qed

lemma appended_spec:
  assumes "list_all (\<lambda>e. body_of version e \<noteq> Panic) es"
  shows "appended (body_of version) es =
         map record_of (filter (\<lambda>x. fst x \<noteq> ''Unnamed'') (List.map_filter (spec_entry version) es))"
  using assms
proof (induction es)
  case Nil
  show ?case by (simp add: appended_Nil List.map_filter_simps)
next
  case (Cons e es)
  then have e: "body_of version e \<noteq> Panic" and es: "list_all (\<lambda>e. body_of version e \<noteq> Panic) es"
    by simp_all
  show ?case
    using Cons.IH [OF es]
    by (simp add: appended_Cons body_of_spec [OF e] List.map_filter_simps split: option.splits)
qed

lemma binding_record_of: "binding (record_of x) = (fst x, endpoint (snd x))"
  by (simp add: binding_def record_of_def str_index_def)

lemma passes_record_of:
  "passes p (record_of x) = (p = [] \<or> HasPrefix (fst x) p)"
  by (simp add: passes_def record_of_def str_index_def)

lemma mapping_of_records:
  "map_of (rev (map binding (filter (passes p)
      (map record_of (filter (\<lambda>x. fst x \<noteq> ''Unnamed'') xs))))) =
   spec_mapping (filter (survives p) xs)"
proof -
  have "filter (passes p) (map record_of (filter (\<lambda>x. fst x \<noteq> ''Unnamed'') xs)) =
        map record_of (filter (survives p) xs)"
    by (induction xs) (auto simp: passes_record_of survives_def)
  then show ?thesis
    by (simp add: spec_mapping_def binding_record_of comp_def)
qed

lemma FetchClusters_spec:
  assumes "prismClient (dispatch_request version) = Inr resp"
    and "Decode resp = Inr result"
    and "as_slice (index result (list_field version)) = Some es"
    and "list_all (\<lambda>e. body_of version e \<noteq> Panic) es"
  shows "snd (FetchClusters prismClient ClusterPrefix version) =
         Returns (spec_mapping (survivors ClusterPrefix version es))"
  using FetchClusters_eq [of prismClient version resp result es ClusterPrefix, OF assms(1,2,3)]
  by (simp add: assms(4) appended_spec [OF assms(4)] mapping_of_records survivors_def)

lemma dispatch_parse_eq:
  "dispatch_parse version result =
     (case as_slice (index result (list_field version)) of
        None \<Rightarrow> Fails (format_error version)
      | Some es \<Rightarrow> range_loop (body_of version) es [])"
  by (cases "version = ''v3''")
     (simp_all add: dispatch_parse_def body_of_def list_field_def format_error_def
        parseV3Clusters_def parseV4Clusters_def parseV4b1Clusters_def
        split: option.splits)

lemma FetchClusters_cases:
  "FetchClusters prismClient ClusterPrefix version =
     (case prismClient (dispatch_request version) of
        Inl err \<Rightarrow> ([Request (dispatch_request version)], Fails err)
      | Inr resp \<Rightarrow>
          (case Decode resp of
             Inl err \<Rightarrow> ([Request (dispatch_request version)], Fails err)
           | Inr result \<Rightarrow>
               (case as_slice (index result (list_field version)) of
                  None \<Rightarrow> ([Request (dispatch_request version)], Fails (format_error version))
                | Some es \<Rightarrow>
                    if list_all (\<lambda>e. body_of version e \<noteq> Panic) es
                    then (Request (dispatch_request version) #
                            map Log (map (log_line ClusterPrefix) (appended (body_of version) es)),
                          Returns (spec_mapping (survivors ClusterPrefix version es)))
                    else ([Request (dispatch_request version)], Panics))))"
  by (simp add: FetchClusters_def Let_def dispatch_parse_eq range_loop_eq build_clusterData_eq
      appended_spec mapping_of_records survivors_def
      split: sum.splits option.splits)

section \<open>Properties of the resolver\<close>

lemma wellformed_no_panic:
  assumes "wellformed version es"
  shows "list_all (\<lambda>e. body_of version e \<noteq> Panic) es"
  using appended_wellformed [OF assms] by simp

lemma Decode_GMap: "Decode (Json (GMap result)) = Inr result"
  by (simp add: Decode_def)

text \<open>
  Claim C1. Under every version selector, when the client answers the request with a JSON
  object whose list field (\<^verbatim>\<open>entities\<close> under v3, \<^verbatim>\<open>data\<close> otherwise) is an array of
  well-formed entries, \<^verbatim>\<open>FetchClusters\<close> returns exactly the mapping that sends the name of
  every surviving entry to \<^verbatim>\<open>https://{ip}:9440\<close>, the name read at \<^verbatim>\<open>spec.name\<close> and the ip
  at \<^verbatim>\<open>status.resources.network.external_ip\<close> under v3, at \<^verbatim>\<open>name\<close> and
  \<^verbatim>\<open>network.externalAddress.ipv4.value\<close> otherwise.
\<close>

theorem FetchClusters_wellformed_response:
  assumes "prismClient (dispatch_request version) = Inr (Json (GMap result))"
    and "as_slice (index result (list_field version)) = Some es"
    and "wellformed version es"
  shows "snd (FetchClusters prismClient ClusterPrefix version) =
         Returns (spec_mapping (survivors ClusterPrefix version es))"
  using assms(1,2) wellformed_no_panic [OF assms(3)]
  by (simp add: FetchClusters_cases Decode_GMap)

text \<open>The definitions a concrete run of the resolver unfolds.\<close>

lemmas eval_defs =
  answering_def failing_def Decode_def dispatch_request_def list_field_def
  makeV3Request_def makeV4Request_def makeV4b1Request_def
  index_def as_slice_def as_map_def as_string_def wellformed_def spec_entry_def
  name_path_def ip_path_def v4_entry_def v3_entity_def survivors_def survives_def
  spec_mapping_def endpoint_def HasPrefix_def List.map_filter_simps
  result_at_def is_error_def format_error_def body_of_def parseV4_body_def parseV3_body_def

text \<open>The three selectors on a response of two clusters each.\<close>

theorem FetchClusters_wellformed_response_witness:
  "snd (FetchClusters
     (answering (Json (GMap [(''entities'',
        GSlice [v3_entity ''pe-a'' ''10.0.0.1'', v3_entity ''pe-b'' ''10.0.0.2''])])))
     [] ''v3'') =
   Returns [''pe-a'' \<mapsto> ''https://10.0.0.1:9440'', ''pe-b'' \<mapsto> ''https://10.0.0.2:9440'']
   \<and>
   snd (FetchClusters
     (answering (Json (GMap [(''data'',
        GSlice [v4_entry ''pe-a'' ''10.0.0.1'', v4_entry ''pe-b'' ''10.0.0.2''])])))
     [] ''v4'') =
   Returns [''pe-a'' \<mapsto> ''https://10.0.0.1:9440'', ''pe-b'' \<mapsto> ''https://10.0.0.2:9440'']
   \<and>
   snd (FetchClusters
     (answering (Json (GMap [(''data'',
        GSlice [v4_entry ''pe-a'' ''10.0.0.1'', v4_entry ''pe-b'' ''10.0.0.2''])])))
     [] ''v4b1'') =
   Returns [''pe-a'' \<mapsto> ''https://10.0.0.1:9440'', ''pe-b'' \<mapsto> ''https://10.0.0.2:9440'']"
  using
    FetchClusters_wellformed_response
      [of "answering (Json (GMap [(''entities'',
             GSlice [v3_entity ''pe-a'' ''10.0.0.1'', v3_entity ''pe-b'' ''10.0.0.2''])]))"
          "''v3''"
          "[(''entities'', GSlice [v3_entity ''pe-a'' ''10.0.0.1'', v3_entity ''pe-b'' ''10.0.0.2''])]"
          "[v3_entity ''pe-a'' ''10.0.0.1'', v3_entity ''pe-b'' ''10.0.0.2'']" "[]"]
    FetchClusters_wellformed_response
      [of "answering (Json (GMap [(''data'',
             GSlice [v4_entry ''pe-a'' ''10.0.0.1'', v4_entry ''pe-b'' ''10.0.0.2''])]))"
          "''v4''"
          "[(''data'', GSlice [v4_entry ''pe-a'' ''10.0.0.1'', v4_entry ''pe-b'' ''10.0.0.2''])]"
          "[v4_entry ''pe-a'' ''10.0.0.1'', v4_entry ''pe-b'' ''10.0.0.2'']" "[]"]
    FetchClusters_wellformed_response
      [of "answering (Json (GMap [(''data'',
             GSlice [v4_entry ''pe-a'' ''10.0.0.1'', v4_entry ''pe-b'' ''10.0.0.2''])]))"
          "''v4b1''"
          "[(''data'', GSlice [v4_entry ''pe-a'' ''10.0.0.1'', v4_entry ''pe-b'' ''10.0.0.2''])]"
          "[v4_entry ''pe-a'' ''10.0.0.1'', v4_entry ''pe-b'' ''10.0.0.2'']" "[]"]
  by (simp add: eval_defs)


text \<open>
  Claim C3 as stated fails: a response whose first entry has a number for a name is not well
  formed, yet the resolver returns no error and the mapping holds the other entry.
\<close>

theorem shape_mismatch_counterexample:
  "\<not> wellformed ''v4'' [GMap [(''name'', GNum 7)], v4_entry ''pe-a'' ''10.0.0.1'']
   \<and> \<not> is_error (snd (FetchClusters
         (answering (Json (GMap [(''data'',
            GSlice [GMap [(''name'', GNum 7)], v4_entry ''pe-a'' ''10.0.0.1''])])))
         [] ''v4''))
   \<and> result_at (snd (FetchClusters
         (answering (Json (GMap [(''data'',
            GSlice [GMap [(''name'', GNum 7)], v4_entry ''pe-a'' ''10.0.0.1''])])))
         [] ''v4'')) ''pe-a'' = Some ''https://10.0.0.1:9440''"
  by (simp add: FetchClusters_cases eval_defs)

text \<open>
  Claim C3, amended. When the request fails in transport, when the body does not decode
  into a JSON object, or when the list field of the decoded object is absent or not an
  array, \<^verbatim>\<open>FetchClusters\<close> makes its one request, logs nothing and returns that single
  error and no mapping. A mismatch inside an entry does not abort the resolution: where no
  entry makes the parser panic, the mapping of the surviving entries is returned.
\<close>

theorem FetchClusters_single_error:
  "(prismClient (dispatch_request version) = Inl err \<longrightarrow>
      FetchClusters prismClient ClusterPrefix version =
        ([Request (dispatch_request version)], Fails err))
   \<and>
   (prismClient (dispatch_request version) = Inr resp \<and> Decode resp = Inl err \<longrightarrow>
      FetchClusters prismClient ClusterPrefix version =
        ([Request (dispatch_request version)], Fails err))
   \<and>
   (prismClient (dispatch_request version) = Inr resp \<and> Decode resp = Inr result \<and>
    as_slice (index result (list_field version)) = None \<longrightarrow>
      FetchClusters prismClient ClusterPrefix version =
        ([Request (dispatch_request version)], Fails (format_error version)))
   \<and>
   (prismClient (dispatch_request version) = Inr resp \<and> Decode resp = Inr result \<and>
    as_slice (index result (list_field version)) = Some es \<and>
    list_all (\<lambda>e. body_of version e \<noteq> Panic) es \<longrightarrow>
      snd (FetchClusters prismClient ClusterPrefix version) =
        Returns (spec_mapping (survivors ClusterPrefix version es)))"
  by (simp add: FetchClusters_cases)

text \<open>A transport error, a body that is not JSON, an object without the list, a bad entry.\<close>

theorem FetchClusters_single_error_witness:
  "FetchClusters (failing (TransportError ''context deadline exceeded'')) [] ''v4'' =
     ([Request (MakeRequest ''GET'' ''/api/clustermgmt/v4.0/config/clusters'')],
      Fails (TransportError ''context deadline exceeded''))
   \<and>
   FetchClusters (answering (Malformed ''unexpected EOF'')) [] ''v4b1'' =
     ([Request (MakeRequest ''GET'' ''/api/clustermgmt/v4.0.b1/config/clusters'')],
      Fails (DecodeError ''unexpected EOF''))
   \<and>
   FetchClusters (answering (Json (GMap [(''message'', GStr ''unauthorized'')]))) [] ''v3'' =
     ([Request (MakeRequestWithParams ''POST'' ''/api/nutanix/v3/clusters/list''
         [(''kind'', GStr ''cluster''), (''length'', GNum 100), (''offset'', GNum 0)])],
      Fails (Errorf ''unexpected response format for v3''))
   \<and>
   snd (FetchClusters
     (answering (Json (GMap [(''data'',
        GSlice [GMap [(''name'', GNum 7)], v4_entry ''pe-a'' ''10.0.0.1''])])))
     [] ''v4'') = Returns [''pe-a'' \<mapsto> ''https://10.0.0.1:9440'']"
  using
    FetchClusters_single_error
      [of "failing (TransportError ''context deadline exceeded'')" "''v4''"
          "TransportError ''context deadline exceeded''" "[]"]
    FetchClusters_single_error
      [of "answering (Malformed ''unexpected EOF'')" "''v4b1''"
          "DecodeError ''unexpected EOF''" "[]" "Malformed ''unexpected EOF''"]
    FetchClusters_single_error
      [of "answering (Json (GMap [(''message'', GStr ''unauthorized'')]))" "''v3''"
          _ "[]" "Json (GMap [(''message'', GStr ''unauthorized'')])"
          "[(''message'', GStr ''unauthorized'')]"]
    FetchClusters_single_error
      [of "answering (Json (GMap [(''data'',
             GSlice [GMap [(''name'', GNum 7)], v4_entry ''pe-a'' ''10.0.0.1''])]))" "''v4''"
          _ "[]"
          "Json (GMap [(''data'', GSlice [GMap [(''name'', GNum 7)], v4_entry ''pe-a'' ''10.0.0.1''])])"
          "[(''data'', GSlice [GMap [(''name'', GNum 7)], v4_entry ''pe-a'' ''10.0.0.1''])]"
          "[GMap [(''name'', GNum 7)], v4_entry ''pe-a'' ''10.0.0.1'']"]
  by (simp add: eval_defs)

text \<open>
  Claim C8 at its failing inputs: an entry with a name and no \<^verbatim>\<open>network\<close> object under v4,
  and an entity whose \<^verbatim>\<open>status\<close> has no \<^verbatim>\<open>resources\<close> object under v3. The one-valued type
  assertion panics; the entry is not skipped.
\<close>

theorem missing_network_panics:
  "FetchClusters
     (answering (Json (GMap [(''data'', GSlice [GMap [(''name'', GStr ''pe-a'')]])])))
     [] ''v4'' =
     ([Request (MakeRequest ''GET'' ''/api/clustermgmt/v4.0/config/clusters'')], Panics)
   \<and>
   FetchClusters
     (answering (Json (GMap [(''entities'',
        GSlice [GMap [(''spec'', GMap [(''name'', GStr ''pe-a'')]), (''status'', GMap [])]])])))
     [] ''v3'' =
     ([Request (MakeRequestWithParams ''POST'' ''/api/nutanix/v3/clusters/list''
         [(''kind'', GStr ''cluster''), (''length'', GNum 100), (''offset'', GNum 0)])], Panics)"
  by (simp add: FetchClusters_cases eval_defs)


lemma appended_append: "appended f (xs @ ys) = appended f xs @ appended f ys"
  by (simp add: appended_def List.map_filter_def)

lemma body_of_Unnamed:
  assumes "as_string (get_path e (name_path version)) = Some ''Unnamed''"
  shows "body_of version e = Continue"
proof (cases "version = ''v3''")
  case True
  with assms show ?thesis
    by (auto simp: body_of_def parseV3_body_def name_path_def as_string_get_path_Cons
        split: option.splits)
next
  case False
  with assms show ?thesis
    by (auto simp: body_of_def parseV4_body_def name_path_def as_string_get_path_Cons
        split: option.splits)
qed

lemma spec_mapping_None: "n \<notin> fst ` set xs \<Longrightarrow> spec_mapping xs n = None"
  by (simp add: spec_mapping_def map_of_eq_None_iff image_image)

lemma survivors_not_Unnamed: "''Unnamed'' \<notin> fst ` set (survivors p version es)"
  by (auto simp: survivors_def survives_def)

lemma FetchClusters_no_Unnamed:
  "result_at (snd (FetchClusters prismClient ClusterPrefix version)) ''Unnamed'' = None"
  by (simp add: FetchClusters_cases result_at_def spec_mapping_None survivors_not_Unnamed
      split: sum.splits option.splits)

lemma map_filter_append:
  "List.map_filter f (xs @ ys) = List.map_filter f xs @ List.map_filter f ys"
  by (simp add: List.map_filter_def)

lemma survivors_skip:
  assumes "body_of version e = Continue"
  shows "survivors p version (es1 @ e # es2) = survivors p version (es1 @ es2)"
proof -
  have "body_of version e \<noteq> Panic" using assms by simp
  from body_of_spec [OF this] assms
  have "spec_entry version e = None \<or>
        (\<exists>x. spec_entry version e = Some x \<and> fst x = ''Unnamed'')"
    by (cases "spec_entry version e") (simp_all split: if_splits)
  then show ?thesis
    by (auto simp: survivors_def map_filter_append List.map_filter_simps survives_def)
qed

text \<open>
  Claim C7. Under every version selector, an entry whose name is \<^verbatim>\<open>Unnamed\<close> changes nothing:
  the resolver does on the response exactly what it does on the response without that
  entry (the same requests, the same log, the same outcome, so no error comes of it), and
  the mapping it returns never has the key \<^verbatim>\<open>Unnamed\<close>.
\<close>

theorem Unnamed_excluded:
  assumes "as_string (get_path e (name_path version)) = Some ''Unnamed''"
    and "as_slice (index result (list_field version)) = Some (es1 @ e # es2)"
    and "as_slice (index result' (list_field version)) = Some (es1 @ es2)"
  shows "FetchClusters (answering (Json (GMap result))) ClusterPrefix version =
         FetchClusters (answering (Json (GMap result'))) ClusterPrefix version
         \<and> result_at (snd (FetchClusters (answering (Json (GMap result))) ClusterPrefix version))
              ''Unnamed'' = None"
proof -
  have c: "body_of version e = Continue"
    by (rule body_of_Unnamed [OF assms(1)])
  have "FetchClusters (answering (Json (GMap result))) ClusterPrefix version =
        FetchClusters (answering (Json (GMap result'))) ClusterPrefix version"
    by (simp add: FetchClusters_cases answering_def Decode_GMap assms(2,3) c
        appended_append appended_Cons survivors_skip [OF c])
  then show ?thesis
    by (simp add: FetchClusters_no_Unnamed)
qed

text \<open>An unnamed entity without network data under v3, an unnamed entry under v4.\<close>

theorem Unnamed_excluded_witness:
  "FetchClusters
     (answering (Json (GMap [(''entities'',
        GSlice [v3_entity ''pe-a'' ''10.0.0.1'',
                GMap [(''spec'', GMap [(''name'', GStr ''Unnamed'')]), (''status'', GMap [])],
                v3_entity ''pe-b'' ''10.0.0.2''])])))
     [] ''v3'' =
   FetchClusters
     (answering (Json (GMap [(''entities'',
        GSlice [v3_entity ''pe-a'' ''10.0.0.1'', v3_entity ''pe-b'' ''10.0.0.2''])])))
     [] ''v3''
   \<and>
   snd (FetchClusters
     (answering (Json (GMap [(''data'',
        GSlice [v4_entry ''Unnamed'' ''10.0.0.9'', v4_entry ''pe-b'' ''10.0.0.2''])])))
     [] ''v4'') = Returns [''pe-b'' \<mapsto> ''https://10.0.0.2:9440'']"
  using
    Unnamed_excluded
      [of "GMap [(''spec'', GMap [(''name'', GStr ''Unnamed'')]), (''status'', GMap [])]" "''v3''"
          "[(''entities'',
             GSlice [v3_entity ''pe-a'' ''10.0.0.1'',
               GMap [(''spec'', GMap [(''name'', GStr ''Unnamed'')]), (''status'', GMap [])],
               v3_entity ''pe-b'' ''10.0.0.2''])]"
          "[v3_entity ''pe-a'' ''10.0.0.1'']" "[v3_entity ''pe-b'' ''10.0.0.2'']"
          "[(''entities'',
             GSlice [v3_entity ''pe-a'' ''10.0.0.1'', v3_entity ''pe-b'' ''10.0.0.2''])]" "[]"]
    Unnamed_excluded
      [of "v4_entry ''Unnamed'' ''10.0.0.9''" "''v4''"
          "[(''data'', GSlice [v4_entry ''Unnamed'' ''10.0.0.9'', v4_entry ''pe-b'' ''10.0.0.2''])]"
          "[]" "[v4_entry ''pe-b'' ''10.0.0.2'']"
          "[(''data'', GSlice [v4_entry ''pe-b'' ''10.0.0.2''])]" "[]"]
  by (simp add: FetchClusters_cases eval_defs)



lemma logs_of_single: "logs_of [Request r] = []"
  by (simp add: logs_of_def List.map_filter_simps)

lemma requests_of_trace: "requests_of (Request r # map Log ls) = [r]"
  by (induction ls) (simp_all add: requests_of_def List.map_filter_simps)

lemma requests_of_trace_comp: "requests_of (Request r # map (Log \<circ> f) xs) = [r]"
  using requests_of_trace [of r "map f xs"] by simp

lemma requests_of_single: "requests_of [Request r] = [r]"
  by (simp add: requests_of_def List.map_filter_simps)





lemma FetchClusters_requests:
  "requests_of (fst (FetchClusters prismClient ClusterPrefix version)) =
     [dispatch_request version]"
  by (simp add: FetchClusters_cases requests_of_trace_comp requests_of_single
      split: sum.splits option.splits)

lemma FetchClusters_cong:
  assumes "prismClient (dispatch_request version) = prismClient' (dispatch_request version)"
  shows "FetchClusters prismClient ClusterPrefix version =
         FetchClusters prismClient' ClusterPrefix version"
  by (simp add: FetchClusters_cases assms)

lemma upstream_v3_answer:
  "upstream_v3 fleet (dispatch_request ''v3'') =
     Inr (Json (GMap [(''entities'', GSlice (take 100 fleet))]))"
  by (simp add: upstream_v3_def dispatch_request_def makeV3Request_def index_def page_of_def)

lemma dom_spec_mapping: "dom (spec_mapping xs) = fst ` set xs"
  by (simp add: spec_mapping_def dom_map_of_conv_image_fst image_image)

lemma length_map_filter: "length (List.map_filter f xs) \<le> length xs"
  by (simp add: List.map_filter_def)

lemma survivors_subset:
  "set (survivors p version es) \<subseteq> set (List.map_filter (spec_entry version) es)"
  by (auto simp: survivors_def)

lemma card_survivor_names: "card (fst ` set (survivors p version es)) \<le> length es"
proof -
  have "card (fst ` set (survivors p version es)) \<le> card (set (survivors p version es))"
    by (rule card_image_le) simp
  also have "\<dots> \<le> length (survivors p version es)"
    by (rule card_length)
  also have "\<dots> \<le> length (List.map_filter (spec_entry version) es)"
    by (simp add: survivors_def)
  also have "\<dots> \<le> length es"
    by (rule length_map_filter)
  finally show ?thesis .
qed

text \<open>
  Claim C9. Under the v3 selector the resolver makes exactly one request, the POST list
  query with \<^verbatim>\<open>length\<close> 100 and \<^verbatim>\<open>offset\<close> 0, whatever the client answers. Against an
  upstream that pages its fleet, the run is the run on the first 100 entries of the fleet:
  a mapping it returns has at most 100 names, all of them names of those first 100.
\<close>

theorem v3_first_page_only:
  "requests_of (fst (FetchClusters prismClient ClusterPrefix ''v3'')) =
     [MakeRequestWithParams ''POST'' ''/api/nutanix/v3/clusters/list''
        [(''kind'', GStr ''cluster''), (''length'', GNum 100), (''offset'', GNum 0)]]
   \<and> FetchClusters (upstream_v3 fleet) ClusterPrefix ''v3'' =
       FetchClusters (upstream_v3 (take 100 fleet)) ClusterPrefix ''v3''
   \<and> (\<forall>m. snd (FetchClusters (upstream_v3 fleet) ClusterPrefix ''v3'') = Returns m \<longrightarrow>
          dom m \<subseteq> fst ` set (List.map_filter (spec_entry ''v3'') (take 100 fleet))
          \<and> card (dom m) \<le> 100)"
proof (intro conjI allI impI)
  show "requests_of (fst (FetchClusters prismClient ClusterPrefix ''v3'')) =
     [MakeRequestWithParams ''POST'' ''/api/nutanix/v3/clusters/list''
        [(''kind'', GStr ''cluster''), (''length'', GNum 100), (''offset'', GNum 0)]]"
    by (simp add: FetchClusters_requests dispatch_request_def makeV3Request_def)
next
  show "FetchClusters (upstream_v3 fleet) ClusterPrefix ''v3'' =
        FetchClusters (upstream_v3 (take 100 fleet)) ClusterPrefix ''v3''"
    by (rule FetchClusters_cong) (simp add: upstream_v3_answer)
next
  fix m
  assume r: "snd (FetchClusters (upstream_v3 fleet) ClusterPrefix ''v3'') = Returns m"
  then have m: "m = spec_mapping (survivors ClusterPrefix ''v3'' (take 100 fleet))"
    by (simp add: FetchClusters_cases upstream_v3_answer Decode_GMap index_def as_slice_def
        list_field_def split: if_splits)
  show "dom m \<subseteq> fst ` set (List.map_filter (spec_entry ''v3'') (take 100 fleet))"
    using survivors_subset [of ClusterPrefix "''v3''" "take 100 fleet"]
    by (auto simp: m dom_spec_mapping)
  have "card (dom m) \<le> length (take 100 fleet)"
    by (simp only: m dom_spec_mapping card_survivor_names)
  then show "card (dom m) \<le> 100"
    by simp
qed

lemma list_all_replicate: "list_all P (replicate n x) = (n = 0 \<or> P x)"
  by (induction n) auto

lemma survivors_replicate:
  assumes "spec_entry version e = Some x" and "survives p x"
  shows "survivors p version (replicate n e) = replicate n x"
  using assms by (induction n) (simp_all add: survivors_def List.map_filter_simps)

lemma map_of_replicate:
  "map_of (replicate n (k, v)) a = (if 0 < n \<and> a = k then Some v else None)"
  by (induction n) auto

lemma spec_mapping_replicate:
  "0 < n \<Longrightarrow> spec_mapping (replicate n x) = [fst x \<mapsto> endpoint (snd x)]"
  by (rule ext) (simp add: spec_mapping_def map_of_replicate)

text \<open>A fleet of 101 clusters: the last one, \<^verbatim>\<open>pe-late\<close>, is not in the mapping.\<close>

theorem v3_first_page_only_witness:
  "length large_fleet = 101
   \<and> requests_of (fst (FetchClusters (upstream_v3 large_fleet) [] ''v3'')) =
     [MakeRequestWithParams ''POST'' ''/api/nutanix/v3/clusters/list''
        [(''kind'', GStr ''cluster''), (''length'', GNum 100), (''offset'', GNum 0)]]
   \<and> snd (FetchClusters (upstream_v3 large_fleet) [] ''v3'') =
       Returns [''pe-a'' \<mapsto> ''https://10.0.0.1:9440'']
   \<and> card (dom [''pe-a'' \<mapsto> ''https://10.0.0.1:9440'']) \<le> 100"
proof -
  have e: "spec_entry ''v3'' (v3_entity ''pe-a'' ''10.0.0.1'') = Some (''pe-a'', ''10.0.0.1'')"
    by (simp add: eval_defs)
  have s: "survives [] (''pe-a'', ''10.0.0.1'')"
    by (simp add: survives_def)
  have np: "body_of ''v3'' (v3_entity ''pe-a'' ''10.0.0.1'') \<noteq> Panic"
    by (simp add: eval_defs)
  have t: "take 100 large_fleet = replicate 100 (v3_entity ''pe-a'' ''10.0.0.1'')"
    by (simp add: large_fleet_def)
  have r: "snd (FetchClusters (upstream_v3 (take 100 large_fleet)) [] ''v3'') =
           Returns [''pe-a'' \<mapsto> ''https://10.0.0.1:9440'']"
    by (simp add: FetchClusters_cases upstream_v3_answer Decode_GMap index_def as_slice_def
        list_field_def t list_all_replicate np survivors_replicate [OF e s]
        spec_mapping_replicate endpoint_def)
  have len: "length large_fleet = 101"
    by (simp add: large_fleet_def)
  have c: "card (dom [''pe-a'' \<mapsto> ''https://10.0.0.1:9440'']) \<le> 100"
    by simp
  from v3_first_page_only [of "upstream_v3 large_fleet" "[]" large_fleet]
  have a: "requests_of (fst (FetchClusters (upstream_v3 large_fleet) [] ''v3'')) =
     [MakeRequestWithParams ''POST'' ''/api/nutanix/v3/clusters/list''
        [(''kind'', GStr ''cluster''), (''length'', GNum 100), (''offset'', GNum 0)]]"
    and b: "FetchClusters (upstream_v3 large_fleet) [] ''v3'' =
       FetchClusters (upstream_v3 (take 100 large_fleet)) [] ''v3''"
    by blast+
  show ?thesis
    by (intro conjI) (fact len, fact a, simp only: b r, fact c)
qed

section \<open>Properties of the generation build and of the refresh loop\<close>



lemma logs_of_append: "logs_of (xs @ ys) = logs_of xs @ logs_of ys"
  by (simp add: logs_of_def List.map_filter_def)

lemma logs_of_Log: "logs_of (map Log ls) = ls"
  by (induction ls) (simp_all add: logs_of_def List.map_filter_simps)

lemma setup_loop_map:
  "snd (setup_loop rt vaultClient clusterData names (logs, clustersMap)) name =
     (if name \<in> set names
      then (case clusterData name of
              None \<Rightarrow> clustersMap name
            | Some url \<Rightarrow>
                (case NewCluster rt name url vaultClient False True 10 of
                   None \<Rightarrow> clustersMap name
                 | Some cluster \<Rightarrow> Some (register_collectors cluster)))
      else clustersMap name)"
proof (induction names arbitrary: logs clustersMap)
  case Nil
  show ?case by simp
next
  case (Cons k names)
  show ?case
    by (cases "k = name") (simp_all add: Cons.IH split: option.splits)
qed

lemma setup_loop_logs:
  "fst (setup_loop rt vaultClient clusterData names (logs, clustersMap)) =
     logs @ List.map_filter (setup_line rt vaultClient clusterData) names"
proof (induction names arbitrary: logs clustersMap)
  case Nil
  show ?case by (simp add: List.map_filter_simps)
next
  case (Cons k names)
  show ?case
    by (simp add: Cons.IH List.map_filter_simps setup_line_def split: option.splits)
qed

lemma setup_loop_failed_logged:
  assumes "name \<in> set names" and "clusterData name = Some url"
    and "NewCluster rt name url vaultClient False True 10 = None"
  shows "''Failed to initialize cluster '' @ name
           \<in> set (fst (setup_loop rt vaultClient clusterData names (logs, clustersMap)))"
proof -
  have "setup_line rt vaultClient clusterData name = Some (''Failed to initialize cluster '' @ name)"
    by (simp add: setup_line_def assms(2,3))
  with assms(1) have "''Failed to initialize cluster '' @ name
      \<in> set (List.map_filter (setup_line rt vaultClient clusterData) names)"
    by (force simp: List.map_filter_def)
  then show ?thesis
    by (simp add: setup_loop_logs)
qed

text \<open>
  Claim C5. When the resolver returns a mapping, \<^verbatim>\<open>SetupClusters\<close> returns a generation
  and never an error, whichever handles fail: a cluster whose \<^verbatim>\<open>NewCluster\<close> gives
  \<^verbatim>\<open>nil\<close> is absent from the generation and a warning with its name is logged; every other
  resolved cluster is present with its handle, the four collectors registered.
\<close>

theorem SetupClusters_skips_failed_handle:
  assumes "FetchClusters prismClient ClusterPrefix version = (tr, Returns clusterData)"
    and "range_ok rt clusterData"
  shows "\<exists>logs clustersMap.
      SetupClusters rt ClusterPrefix prismClient vaultClient version =
        (tr @ map Log logs, Returns clustersMap)
      \<and> (\<forall>name url. clusterData name = Some url \<longrightarrow>
            (case NewCluster rt name url vaultClient False True 10 of
               None \<Rightarrow>
                 clustersMap name = None \<and> ''Failed to initialize cluster '' @ name \<in> set logs
             | Some cluster \<Rightarrow> clustersMap name = Some (register_collectors cluster)))
      \<and> dom clustersMap \<subseteq> dom clusterData"
proof -
  define res where
    "res = setup_loop rt vaultClient clusterData (range_keys rt clusterData) ([], Map.empty)"
  have keys: "set (range_keys rt clusterData) = dom clusterData"
    using assms(2) by (simp add: range_ok_def)
  have run: "SetupClusters rt ClusterPrefix prismClient vaultClient version =
               (tr @ map Log (fst res), Returns (snd res))"
    by (simp add: SetupClusters_def assms(1) res_def split: prod.splits)
  have each: "case NewCluster rt name url vaultClient False True 10 of
               None \<Rightarrow>
                 snd res name = None \<and> ''Failed to initialize cluster '' @ name \<in> set (fst res)
             | Some cluster \<Rightarrow> snd res name = Some (register_collectors cluster)"
    if "clusterData name = Some url" for name url
  proof -
    from that keys have mem: "name \<in> set (range_keys rt clusterData)"
      by auto
    show ?thesis
    proof (cases "NewCluster rt name url vaultClient False True 10")
      case None
      from setup_loop_failed_logged
             [where clusterData = clusterData and rt = rt, OF mem that None]
      show ?thesis
        by (simp add: None res_def setup_loop_map mem that)
    next
      case (Some cluster)
      then show ?thesis
        by (simp add: res_def setup_loop_map mem that)
    qed
  qed
  have "dom (snd res) \<subseteq> dom clusterData"
    by (auto simp: res_def setup_loop_map keys split: if_splits option.splits)
  with run each show ?thesis
    by blast
qed

text \<open>Two resolved clusters, the handle of \<^verbatim>\<open>pe-a\<close> failing: \<^verbatim>\<open>pe-b\<close> is still served.\<close>

theorem SetupClusters_skips_failed_handle_witness:
  "result_at (snd (SetupClusters flaky_runtime [] (answering two_clusters) () ''v4'')) ''pe-a'' = None
   \<and> result_at (snd (SetupClusters flaky_runtime [] (answering two_clusters) () ''v4'')) ''pe-b'' =
       Some (register_collectors
              \<lparr>handle = (''pe-b'', ''https://10.0.0.2:9440''), Registry = [], Collectors = []\<rparr>)
   \<and> ''Failed to initialize cluster pe-a''
       \<in> set (logs_of (fst (SetupClusters flaky_runtime [] (answering two_clusters) () ''v4'')))"
proof -
  let ?data = "[''pe-a'' \<mapsto> ''https://10.0.0.1:9440'', ''pe-b'' \<mapsto> ''https://10.0.0.2:9440'']"
  let ?tr = "fst (FetchClusters (answering two_clusters) [] ''v4'')"
  have "snd (FetchClusters (answering two_clusters) [] ''v4'') = Returns ?data"
    by (simp add: FetchClusters_cases two_clusters_def eval_defs)
  then have h1: "FetchClusters (answering two_clusters) [] ''v4'' = (?tr, Returns ?data)"
    by (simp add: prod_eq_iff)
  have h2: "range_ok flaky_runtime ?data"
    by (auto simp: range_ok_def flaky_runtime_def)
  from SetupClusters_skips_failed_handle
         [where prismClient = "answering two_clusters" and vaultClient = "()", OF h1 h2]
  obtain logs clustersMap where
    run: "SetupClusters flaky_runtime [] (answering two_clusters) () ''v4'' =
            (?tr @ map Log logs, Returns clustersMap)"
    and each: "\<And>name url. ?data name = Some url \<Longrightarrow>
            (case NewCluster flaky_runtime name url () False True 10 of
               None \<Rightarrow>
                 clustersMap name = None \<and> ''Failed to initialize cluster '' @ name \<in> set logs
             | Some cluster \<Rightarrow> clustersMap name = Some (register_collectors cluster))"
    by blast
  from each [of "''pe-a''" "''https://10.0.0.1:9440''"]
  have a: "clustersMap ''pe-a'' = None" and l: "''Failed to initialize cluster pe-a'' \<in> set logs"
    by (simp_all add: flaky_runtime_def)
  from each [of "''pe-b''" "''https://10.0.0.2:9440''"]
  have b: "clustersMap ''pe-b'' =
       Some (register_collectors
              \<lparr>handle = (''pe-b'', ''https://10.0.0.2:9440''), Registry = [], Collectors = []\<rparr>)"
    by (simp add: flaky_runtime_def)
  show ?thesis
    by (simp add: run result_at_def a b l logs_of_append logs_of_Log)
qed

text \<open>
  Claim C4. On a tick where \<^verbatim>\<open>SetupClusters\<close> returns an error, the process stays alive,
  \<^verbatim>\<open>ClustersMap\<close> is what it was before the tick, so every lookup of the metrics route
  answers as before, the failure is written to the log, and the loop goes on with the next
  tick from that state.
\<close>

theorem failed_refresh_keeps_generation:
  assumes "snd (SetupClusters (go_runtime w) ClusterPrefix (PrismAPI w) vaultClient version) =
             Fails err"
  shows "\<exists>st'.
      refresh_tick ClusterPrefix vaultClient version w st = Alive st'
      \<and> ClustersMap st' = ClustersMap st
      \<and> (\<forall>path. metrics_lookup st' path = metrics_lookup st path)
      \<and> Log (''Cluster refresh failed: '' @ error_text err) \<in> set (trace st')
      \<and> refresh_loop ClusterPrefix vaultClient version (w # ws) st =
          refresh_loop ClusterPrefix vaultClient version ws st'"
proof -
  obtain tr where
    s: "SetupClusters (go_runtime w) ClusterPrefix (PrismAPI w) vaultClient version =
          (tr, Fails err)"
    using assms by (cases "SetupClusters (go_runtime w) ClusterPrefix (PrismAPI w) vaultClient version")
      simp
  let ?st' = "st\<lparr>trace := (trace st @ [Log ''Refreshing cluster list...'']) @ tr @
                [Log (''Cluster refresh failed: '' @ error_text err)]\<rparr>"
  have t: "refresh_tick ClusterPrefix vaultClient version w st = Alive ?st'"
    by (simp add: refresh_tick_def Let_def s)
  have "refresh_loop ClusterPrefix vaultClient version (w # ws) st =
        refresh_loop ClusterPrefix vaultClient version ws ?st'"
    by (simp add: t)
  with t show ?thesis
    by (intro exI [of _ ?st']) (simp add: metrics_lookup_def)
qed

text \<open>The central endpoint refuses the connection on one tick: \<^verbatim>\<open>pe-a\<close> stays reachable.\<close>

theorem failed_refresh_keeps_generation_witness:
  "\<exists>st'.
      refresh_tick [] () ''v4'' world_down serving = Alive st'
      \<and> metrics_lookup st' ''/metrics/pe-a'' = Some sample_cluster
      \<and> Log ''Cluster refresh failed: connection refused'' \<in> set (trace st')
      \<and> refresh_loop [] () ''v4'' [world_down, world_up] serving =
          refresh_loop [] () ''v4'' [world_up] st'"
proof -
  have h: "snd (SetupClusters (go_runtime world_down) [] (PrismAPI world_down) () ''v4'') =
             Fails (TransportError ''connection refused'')"
    by (simp add: SetupClusters_def FetchClusters_cases world_down_def failing_def)
  from failed_refresh_keeps_generation [OF h, of serving "[world_up]"]
  obtain st' where
    "refresh_tick [] () ''v4'' world_down serving = Alive st'"
    "\<forall>path. metrics_lookup st' path = metrics_lookup serving path"
    "Log (''Cluster refresh failed: '' @ error_text (TransportError ''connection refused''))
       \<in> set (trace st')"
    "refresh_loop [] () ''v4'' [world_down, world_up] serving =
       refresh_loop [] () ''v4'' [world_up] st'"
    by blast
  moreover have "metrics_lookup serving ''/metrics/pe-a'' = Some sample_cluster"
    by (simp add: metrics_lookup_def TrimPrefix_def HasPrefix_def serving_def)
  ultimately show ?thesis
    by (intro exI [of _ st']) (simp add: error_text_def)
qed


lemma requests_of_Log_single: "requests_of [Log l] = []"
  by (simp add: requests_of_def List.map_filter_simps)











end
